theory Spec2Isabelle
  imports Main
begin

section \<open>The auth API of Simple8-backend-supabase/server.js\<close>

text \<open>
  The service is a set of Express handlers over two Supabase tables (\<open>users\<close>,
  \<open>resets\<close>), a mailer, bcryptjs and jsonwebtoken. Each handler is embedded as a
  function from the request and the state of the outside world to the response and the
  new state. What the handler cannot decide by itself is an input:
  \<^item> \<open>env\<close>: the process configuration read at start-up and the library primitives
    (bcrypt, jwt), which are not code of the repository;
  \<^item> \<open>io\<close>: what one request observes from outside: the clock, the random salt and
    token, the id the database generates, and whether a store call or the mail
    transport fails.

  Strings are lists of code units below 256 (the Latin-1 range of a JavaScript string).
  A body field is any value the JSON and urlencoded parsers deliver, or absent. The
  response messages are Vietnamese text in the source; they are constructors here, named
  after their meaning.
\<close>

subsection \<open>JavaScript values and strings\<close>

text \<open>
  What \<^verbatim>\<open>express.json()\<close> and \<^verbatim>\<open>express.urlencoded\<close> put into a field of \<^verbatim>\<open>req.body\<close>:
  a string, a number, a boolean, \<open>null\<close>, an array, an object; \<open>JUndefined\<close> is an
  absent field. A number is given by what a handler can observe of it: whether it is
  non-zero, and the text \<^verbatim>\<open>String()\<close> makes of it (the shortest decimal that reads back
  as the same double, which is not recomputed here); 123 is \<open>JNum True ''123''\<close>.
\<close>

datatype jsval =
  JUndefined
| JNull
| JBool bool
| JNum bool string
| JStr string
| JArr "jsval list"
| JObj "(string \<times> jsval) list"

text \<open>
  \<^verbatim>\<open>!v\<close> is \<open>\<not> truthy v\<close>: \<open>undefined\<close>, \<open>null\<close>, \<open>false\<close>, zero and the empty string
  are falsy; every array and every object is truthy.
\<close>

fun truthy :: "jsval \<Rightarrow> bool" where
  "truthy JUndefined = False"
| "truthy JNull = False"
| "truthy (JBool b) = b"
| "truthy (JNum nonzero text) = nonzero"
| "truthy (JStr s) = (s \<noteq> [])"
| "truthy (JArr xs) = True"
| "truthy (JObj fs) = True"

text \<open>\<^verbatim>\<open>a || b\<close>\<close>

definition js_or :: "jsval \<Rightarrow> jsval \<Rightarrow> jsval" where
  "js_or a b = (if truthy a then a else b)"

datatype type_error = TypeError

text \<open>
  \<^verbatim>\<open>String(v)\<close>, and the \<^verbatim>\<open>${v}\<close> of a template literal. An array is the join of its
  elements with commas, \<open>null\<close> and \<open>undefined\<close> elements giving nothing. An object is
  \<^verbatim>\<open>[object Object]\<close>, unless it has a key \<^verbatim>\<open>toString\<close> of its own: a JSON value is
  not callable, \<^verbatim>\<open>valueOf\<close> returns the object, and the conversion throws a TypeError.
\<close>

fun String_of :: "jsval \<Rightarrow> type_error + string"
  and join_elements :: "jsval list \<Rightarrow> type_error + string" where
  "String_of JUndefined = Inr ''undefined''"
| "String_of JNull = Inr ''null''"
| "String_of (JBool b) = Inr (if b then ''true'' else ''false'')"
| "String_of (JNum nonzero text) = Inr text"
| "String_of (JStr s) = Inr s"
| "String_of (JArr xs) = join_elements xs"
| "String_of (JObj fs) =
     (if ''toString'' \<in> set (map fst fs) then Inl TypeError else Inr ''[object Object]'')"
| "join_elements [] = Inr []"
| "join_elements (x # xs) =
     (case (if x = JNull \<or> x = JUndefined then Inr [] else String_of x) of
        Inl e \<Rightarrow> Inl e
      | Inr s \<Rightarrow>
          (if xs = [] then Inr s
           else (case join_elements xs of
                   Inl e \<Rightarrow> Inl e
                 | Inr t \<Rightarrow> Inr (s @ '','' @ t))))"

text \<open>
  White space and line terminators of ECMAScript below code 256: TAB, LF, VT, FF, CR,
  SP and NBSP. \<^verbatim>\<open>trim\<close> strips them at both ends, \<^verbatim>\<open>\s\<close> matches them.
\<close>

definition isLineTerminator :: "char \<Rightarrow> bool" where
  "isLineTerminator c = (of_char c = (10::nat) \<or> of_char c = (13::nat))"

definition isWhiteSpace :: "char \<Rightarrow> bool" where
  "isWhiteSpace c =
     (let n = of_char c :: nat
      in n = 9 \<or> n = 10 \<or> n = 11 \<or> n = 12 \<or> n = 13 \<or> n = 32 \<or> n = 160)"

definition trim :: "string \<Rightarrow> string" where
  "trim s = rev (dropWhile isWhiteSpace (rev (dropWhile isWhiteSpace s)))"

text \<open>
  \<^verbatim>\<open>toLowerCase\<close> below code 256: A-Z and the Latin-1 capitals (0xC0-0xDE without the
  multiplication sign 0xD7) move up by 32; nothing else changes.
\<close>

definition toLowerChar :: "char \<Rightarrow> char" where
  "toLowerChar c =
     (let n = of_char c :: nat
      in if (65 \<le> n \<and> n \<le> 90) \<or> (192 \<le> n \<and> n \<le> 222 \<and> n \<noteq> 215)
         then char_of (n + 32) else c)"

definition toLowerCase :: "string \<Rightarrow> string" where
  "toLowerCase s = map toLowerChar s"

text \<open>\<^verbatim>\<open>String(email).trim().toLowerCase()\<close>, the \<open>lower\<close> of register and approve.\<close>

definition normalize :: "string \<Rightarrow> string" where
  "normalize s = toLowerCase (trim s)"

text \<open>\<^verbatim>\<open>String(email || '').trim().toLowerCase()\<close>, the \<open>lower\<close> of login, forgot and reset.\<close>

definition lower_of :: "jsval \<Rightarrow> type_error + string" where
  "lower_of email =
     (case String_of (js_or email (JStr [])) of
        Inl e \<Rightarrow> Inl e
      | Inr s \<Rightarrow> Inr (normalize s))"

subsection \<open>Tables, mail, log\<close>

type_synonym uuid = string

text \<open>
  The \<open>name\<close> column keeps the text the store makes of the submitted JSON value; the
  row carries that value.
\<close>

record user =
  u_id :: uuid
  u_name :: jsval
  u_email :: string
  pass_hash :: string
  approved :: bool

record reset_row =
  r_id :: uuid
  r_email :: string
  r_token :: string
  expires_at :: int

datatype mail_body = NewUserNotice string string | ResetInstructions string

record mail =
  mail_to :: string
  mail_body :: mail_body

datatype log_tag =
  LogRegister | LogApprove | LogLogin | LogForgot | LogReset | LogChangePassword

record world =
  users :: "user list"
  resets :: "reset_row list"
  outbox :: "mail list"
  errlog :: "log_tag list"

subsection \<open>Configuration, primitives, and what a request observes\<close>

record claims =
  uid :: uuid
  c_email :: string
  c_name :: jsval

record env =
  JWT_SECRET :: string
  ADMIN_EMAIL :: string
  ADMIN_CODE :: string
  SMTP_HOST :: string
  SMTP_PORT :: string
  SMTP_USER :: string
  SMTP_PASS :: string
  bcrypt_hash :: "string \<Rightarrow> string \<Rightarrow> string"
  bcrypt_compare :: "string \<Rightarrow> string \<Rightarrow> bool"
  jwt_sign :: "string \<Rightarrow> claims \<Rightarrow> int \<Rightarrow> string"
  jwt_verify :: "string \<Rightarrow> string \<Rightarrow> int \<Rightarrow> claims option"

text \<open>
  \<open>bcrypt_hash env salt pw\<close> is \<^verbatim>\<open>bcrypt.hash(pw, 8)\<close> on a string \<open>pw\<close> when the library
  draws \<open>salt\<close>; \<open>bcrypt_compare env pw digest\<close> is \<^verbatim>\<open>bcrypt.compare(pw, digest)\<close> on
  strings;
  \<open>jwt_sign env secret payload t\<close> is \<^verbatim>\<open>jwt.sign(payload, secret, {expiresIn:'7d'})\<close> at time
  \<open>t\<close>; \<open>jwt_verify env secret token t\<close> is the payload of \<^verbatim>\<open>jwt.verify(token, secret)\<close>, or
  \<open>None\<close> when it throws; the payloads are those \<open>signToken\<close> signs, with the \<open>uid\<close> of a
  row. An unset environment variable is the empty string.
\<close>

record io =
  now :: int
  salt :: string
  rand_hex :: string
  fresh_id :: uuid
  store_err :: "nat \<Rightarrow> bool"
  mail_err :: bool

text \<open>
  \<open>now\<close> is \<^verbatim>\<open>Date.now()\<close> in milliseconds, \<open>rand_hex\<close> is
  \<^verbatim>\<open>crypto.randomBytes(24).toString('hex')\<close>, \<open>fresh_id\<close> is the \<^verbatim>\<open>gen_random_uuid()\<close> of
  an insert, \<open>store_err io k\<close> says that the \<open>k\<close>-th store call of the request (from 0)
  comes back with an error, \<open>mail_err\<close> that the transport rejects the message.
\<close>

subsection \<open>Responses\<close>

datatype message =
  MissingFields          \<comment> \<open>register: a required field is missing\<close>
| EmailExists            \<comment> \<open>register: "Email da ton tai"\<close>
| Registered             \<comment> \<open>register: success, wait for approval\<close>
| MissingEmailCode       \<comment> \<open>approve: "Thieu email/code"\<close>
| WrongAdminCode         \<comment> \<open>approve: "Sai ma admin"\<close>
| Approved               \<comment> \<open>approve: "Da duyet"\<close>
| BadCredentials         \<comment> \<open>login: "Email hoac mat khau sai"\<close>
| NotApproved            \<comment> \<open>login: "Tai khoan chua duoc duyet"\<close>
| ForgotGeneric          \<comment> \<open>forgot: "Neu email ton tai, chung toi da gui huong dan."\<close>
| InvalidResetToken      \<comment> \<open>reset: "Token khong hop le"\<close>
| ExpiredResetToken      \<comment> \<open>reset: "Token da het han"\<close>
| PasswordReset          \<comment> \<open>reset: "Da dat lai mat khau"\<close>
| MissingNewPassword     \<comment> \<open>change-password: "Thieu mat khau moi"\<close>
| UserNotFound           \<comment> \<open>change-password: "Khong tim thay nguoi dung"\<close>
| WrongOldPassword       \<comment> \<open>change-password: "Mat khau hien tai khong dung"\<close>
| PasswordChanged        \<comment> \<open>change-password: "Da doi mat khau"\<close>
| MissingToken           \<comment> \<open>auth: "Missing token"\<close>
| InvalidToken           \<comment> \<open>auth: "Invalid token"\<close>
| ServerError            \<comment> \<open>every catch block: "Loi server"\<close>

datatype payload =
  Message message
| Session string uuid string jsval  \<comment> \<open>token, then the user's id, email, name\<close>

record response =
  status :: nat
  payload :: payload

definition respond :: "nat \<Rightarrow> message \<Rightarrow> response" where
  "respond st m = \<lparr>status = st, payload = Message m\<rparr>"

text \<open>The catch block of a handler: log under the handler's tag, answer 500.\<close>

definition server_error :: "log_tag \<Rightarrow> world \<Rightarrow> response \<times> world" where
  "server_error tag w = (respond 500 ServerError, w\<lparr>errlog := errlog w @ [tag]\<rparr>)"

subsection \<open>Store gateway\<close>

datatype store_error = StoreError

text \<open>
  \<^verbatim>\<open>maybeSingle()\<close>: no row is \<open>null\<close>, one row is that row, several rows are an error.
\<close>

fun maybeSingle :: "'a list \<Rightarrow> store_error + 'a option" where
  "maybeSingle [] = Inr None"
| "maybeSingle [x] = Inr (Some x)"
| "maybeSingle (x # y # zs) = Inl StoreError"

definition users_select_eq_email ::
  "bool \<Rightarrow> world \<Rightarrow> string \<Rightarrow> store_error + user option" where
  "users_select_eq_email err w e =
     (if err then Inl StoreError else maybeSingle (filter (\<lambda>u. u_email u = e) (users w)))"

definition users_select_eq_id ::
  "bool \<Rightarrow> world \<Rightarrow> uuid \<Rightarrow> store_error + user option" where
  "users_select_eq_id err w i =
     (if err then Inl StoreError else maybeSingle (filter (\<lambda>u. u_id u = i) (users w)))"

text \<open>
  An insert into \<open>users\<close> is refused by the primary key on \<open>id\<close> and by the unique
  constraint on \<open>email\<close>. A store call that fails changes nothing.
\<close>

definition users_insert :: "bool \<Rightarrow> user \<Rightarrow> world \<Rightarrow> store_error + world" where
  "users_insert err u w =
     (if err \<or> u_id u \<in> set (map u_id (users w)) \<or> u_email u \<in> set (map u_email (users w))
      then Inl StoreError
      else Inr (w\<lparr>users := users w @ [u]\<rparr>))"

definition users_update_eq_email ::
  "bool \<Rightarrow> (user \<Rightarrow> user) \<Rightarrow> string \<Rightarrow> world \<Rightarrow> store_error + world" where
  "users_update_eq_email err f e w =
     (if err then Inl StoreError
      else Inr (w\<lparr>users := map (\<lambda>u. if u_email u = e then f u else u) (users w)\<rparr>))"

definition users_update_eq_id ::
  "bool \<Rightarrow> (user \<Rightarrow> user) \<Rightarrow> uuid \<Rightarrow> world \<Rightarrow> store_error + world" where
  "users_update_eq_id err f i w =
     (if err then Inl StoreError
      else Inr (w\<lparr>users := map (\<lambda>u. if u_id u = i then f u else u) (users w)\<rparr>))"

definition resets_insert :: "bool \<Rightarrow> reset_row \<Rightarrow> world \<Rightarrow> store_error + world" where
  "resets_insert err r w =
     (if err \<or> r_id r \<in> set (map r_id (resets w))
      then Inl StoreError
      else Inr (w\<lparr>resets := resets w @ [r]\<rparr>))"

definition resets_select_eq_email_token ::
  "bool \<Rightarrow> world \<Rightarrow> string \<Rightarrow> string \<Rightarrow> store_error + reset_row option" where
  "resets_select_eq_email_token err w e t =
     (if err then Inl StoreError
      else maybeSingle (filter (\<lambda>r. r_email r = e \<and> r_token r = t) (resets w)))"

definition resets_delete_eq_id :: "bool \<Rightarrow> uuid \<Rightarrow> world \<Rightarrow> store_error + world" where
  "resets_delete_eq_id err i w =
     (if err then Inl StoreError
      else Inr (w\<lparr>resets := filter (\<lambda>r. r_id r \<noteq> i) (resets w)\<rparr>))"

subsection \<open>Mailer\<close>

datatype transporter = Transporter string string string string

datatype mail_error = MailError

definition getTransporter :: "env \<Rightarrow> transporter option" where
  "getTransporter env =
     (if SMTP_HOST env = [] \<or> SMTP_PORT env = [] \<or> SMTP_USER env = [] \<or> SMTP_PASS env = []
      then None
      else Some (Transporter (SMTP_HOST env) (SMTP_PORT env) (SMTP_USER env) (SMTP_PASS env)))"

text \<open>
  \<^verbatim>\<open>sendMail\<close> has no handler of its own: without a transporter it returns, otherwise
  it awaits the transport, whose rejection is its own.
\<close>

definition sendMail :: "env \<Rightarrow> io \<Rightarrow> mail \<Rightarrow> world \<Rightarrow> mail_error + world" where
  "sendMail env io m w =
     (case getTransporter env of
        None \<Rightarrow> Inr w
      | Some tp \<Rightarrow> if mail_err io then Inl MailError else Inr (w\<lparr>outbox := outbox w @ [m]\<rparr>))"

subsection \<open>Helpers\<close>

text \<open>
  bcryptjs on what a handler passes: anything but a string is refused with an
  "Illegal arguments" error, which rejects the promise the handler awaits.
\<close>

datatype bcrypt_error = IllegalArguments

definition bcryptjs_hash :: "env \<Rightarrow> io \<Rightarrow> jsval \<Rightarrow> bcrypt_error + string" where
  "bcryptjs_hash env io v =
     (case v of JStr s \<Rightarrow> Inr (bcrypt_hash env (salt io) s) | _ \<Rightarrow> Inl IllegalArguments)"

definition bcryptjs_compare :: "env \<Rightarrow> jsval \<Rightarrow> string \<Rightarrow> bcrypt_error + bool" where
  "bcryptjs_compare env v digest =
     (case v of JStr s \<Rightarrow> Inr (bcrypt_compare env s digest) | _ \<Rightarrow> Inl IllegalArguments)"

definition signToken :: "env \<Rightarrow> io \<Rightarrow> claims \<Rightarrow> string" where
  "signToken env io c = jwt_sign env (JWT_SECRET env) c (now io)"

text \<open>
  \<^verbatim>\<open>/^Bearer\s+(.+)$/i\<close>: the word in any case, at least one white space, then at least
  one character that is no line terminator, up to the end. \<^verbatim>\<open>\s+\<close> is greedy and gives
  back its last character only when nothing else is left for the group.
\<close>

definition match_bearer :: "string \<Rightarrow> string option" where
  "match_bearer h =
     (let rest = drop 6 h;
          ws = takeWhile isWhiteSpace rest;
          tok = dropWhile isWhiteSpace rest
      in if toLowerCase (take 6 h) \<noteq> ''bearer'' then None
         else if tok \<noteq> [] then
           (if ws \<noteq> [] \<and> \<not> list_ex isLineTerminator tok then Some tok else None)
         else if 2 \<le> length ws \<and> \<not> isLineTerminator (last ws) then Some [last ws]
         else None)"

definition auth :: "env \<Rightarrow> io \<Rightarrow> string option \<Rightarrow> response + claims" where
  "auth env io authorization =
     (case match_bearer (case authorization of None \<Rightarrow> [] | Some h \<Rightarrow> h) of
        None \<Rightarrow> Inl (respond 401 MissingToken)
      | Some t \<Rightarrow>
          (case jwt_verify env (JWT_SECRET env) t (now io) of
             None \<Rightarrow> Inl (respond 401 InvalidToken)
           | Some c \<Rightarrow> Inr c))"

subsection \<open>Handlers\<close>

text \<open>
  Every handler body is one \<^verbatim>\<open>try\<close> block: whatever is thrown or rejected inside it
  (a store error, a rejected mail, a bcrypt refusal, a TypeError of \<^verbatim>\<open>String()\<close>) ends in
  the catch block, \<open>server_error\<close>, with the store as the handler has left it by then.
\<close>

text \<open>
  POST /api/auth/register. The text of the admin mail is built from \<^verbatim>\<open>${name}\<close> before
  \<open>sendMail\<close> is called.
\<close>

definition register ::
  "env \<Rightarrow> io \<Rightarrow> jsval \<Rightarrow> jsval \<Rightarrow> jsval \<Rightarrow> world \<Rightarrow> response \<times> world" where
  "register env io name email password w =
     (if \<not> truthy name \<or> \<not> truthy email \<or> \<not> truthy password
      then (respond 400 MissingFields, w)
      else
        (case String_of email of
           Inl e0 \<Rightarrow> server_error LogRegister w
         | Inr s \<Rightarrow>
             (let lower = normalize s in
              (case users_select_eq_email (store_err io 0) w lower of
                 Inl e1 \<Rightarrow> server_error LogRegister w
               | Inr (Some exist) \<Rightarrow> (respond 400 EmailExists, w)
               | Inr None \<Rightarrow>
                   (case bcryptjs_hash env io password of
                      Inl eh \<Rightarrow> server_error LogRegister w
                    | Inr hash \<Rightarrow>
                        (case users_insert (store_err io 1)
                                \<lparr>u_id = fresh_id io, u_name = name, u_email = lower,
                                 pass_hash = hash, approved = False\<rparr> w of
                           Inl e2 \<Rightarrow> server_error LogRegister w
                         | Inr w1 \<Rightarrow>
                             (if ADMIN_EMAIL env \<noteq> [] then
                                (case String_of name of
                                   Inl en \<Rightarrow> server_error LogRegister w1
                                 | Inr n \<Rightarrow>
                                     (case sendMail env io
                                             \<lparr>mail_to = ADMIN_EMAIL env,
                                              mail_body = NewUserNotice n lower\<rparr> w1 of
                                        Inl e \<Rightarrow> server_error LogRegister w1
                                      | Inr w2 \<Rightarrow> (respond 200 Registered, w2)))
                              else (respond 200 Registered, w1))))))))"

text \<open>POST /api/auth/approve\<close>

definition approve :: "env \<Rightarrow> io \<Rightarrow> jsval \<Rightarrow> jsval \<Rightarrow> world \<Rightarrow> response \<times> world" where
  "approve env io email code w =
     (if \<not> truthy email \<or> \<not> truthy code then (respond 400 MissingEmailCode, w)
      else if ADMIN_CODE env = [] \<or> code \<noteq> JStr (ADMIN_CODE env)
      then (respond 403 WrongAdminCode, w)
      else
        (case String_of email of
           Inl e0 \<Rightarrow> server_error LogApprove w
         | Inr s \<Rightarrow>
             (let lower = normalize s in
              (case users_update_eq_email (store_err io 0) (\<lambda>u. u\<lparr>approved := True\<rparr>)
                      lower w of
                 Inl e \<Rightarrow> server_error LogApprove w
               | Inr w1 \<Rightarrow> (respond 200 Approved, w1)))))"

text \<open>POST /api/auth/login\<close>

definition login :: "env \<Rightarrow> io \<Rightarrow> jsval \<Rightarrow> jsval \<Rightarrow> world \<Rightarrow> response \<times> world" where
  "login env io email password w =
     (case lower_of email of
        Inl e0 \<Rightarrow> server_error LogLogin w
      | Inr lower \<Rightarrow>
          (case users_select_eq_email (store_err io 0) w lower of
             Inl e \<Rightarrow> server_error LogLogin w
           | Inr None \<Rightarrow> (respond 400 BadCredentials, w)
           | Inr (Some u) \<Rightarrow>
               (if \<not> approved u then (respond 403 NotApproved, w)
                else
                  (case bcryptjs_compare env (js_or password (JStr [])) (pass_hash u) of
                     Inl ec \<Rightarrow> server_error LogLogin w
                   | Inr ok \<Rightarrow>
                       (if \<not> ok then (respond 400 BadCredentials, w)
                        else
                          (let token = signToken env io
                                 \<lparr>uid = u_id u, c_email = u_email u, c_name = u_name u\<rparr>
                           in (\<lparr>status = 200,
                                payload = Session token (u_id u) (u_email u) (u_name u)\<rparr>,
                               w)))))))"

text \<open>POST /api/auth/forgot\<close>

definition forgot :: "env \<Rightarrow> io \<Rightarrow> jsval \<Rightarrow> world \<Rightarrow> response \<times> world" where
  "forgot env io email w =
     (case lower_of email of
        Inl e0 \<Rightarrow> server_error LogForgot w
      | Inr lower \<Rightarrow>
          (case users_select_eq_email (store_err io 0) w lower of
             Inl e \<Rightarrow> server_error LogForgot w
           | Inr None \<Rightarrow> (respond 200 ForgotGeneric, w)
           | Inr (Some u) \<Rightarrow>
               (let token = rand_hex io;
                    expires = now io + 1000 * 60 * 30
                in (case resets_insert (store_err io 1)
                           \<lparr>r_id = fresh_id io, r_email = lower, r_token = token,
                            expires_at = expires\<rparr> w of
                      Inl e2 \<Rightarrow> server_error LogForgot w
                    | Inr w1 \<Rightarrow>
                        (case sendMail env io
                                \<lparr>mail_to = lower, mail_body = ResetInstructions token\<rparr> w1 of
                           Inl e \<Rightarrow> server_error LogForgot w1
                         | Inr w2 \<Rightarrow> (respond 200 ForgotGeneric, w2))))))"

text \<open>
  POST /api/auth/reset. The filter on \<open>token\<close> is the text \<^verbatim>\<open>eq.${token}\<close>. The result of
  the final delete is awaited and dropped.
\<close>

definition reset ::
  "env \<Rightarrow> io \<Rightarrow> jsval \<Rightarrow> jsval \<Rightarrow> jsval \<Rightarrow> world \<Rightarrow> response \<times> world" where
  "reset env io email token newPassword w =
     (case lower_of email of
        Inl e0 \<Rightarrow> server_error LogReset w
      | Inr lower \<Rightarrow>
          (case String_of token of
             Inl et \<Rightarrow> server_error LogReset w
           | Inr tok \<Rightarrow>
               (case resets_select_eq_email_token (store_err io 0) w lower tok of
                  Inl e \<Rightarrow> server_error LogReset w
                | Inr None \<Rightarrow> (respond 400 InvalidResetToken, w)
                | Inr (Some r) \<Rightarrow>
                    (if expires_at r < now io then (respond 400 ExpiredResetToken, w)
                     else
                       (case bcryptjs_hash env io (js_or newPassword (JStr [])) of
                          Inl eh \<Rightarrow> server_error LogReset w
                        | Inr hash \<Rightarrow>
                            (case users_update_eq_email (store_err io 1)
                                    (\<lambda>u. u\<lparr>pass_hash := hash\<rparr>) lower w of
                               Inl e2 \<Rightarrow> server_error LogReset w
                             | Inr w1 \<Rightarrow>
                                 (let w2 = (case resets_delete_eq_id (store_err io 2)
                                                   (r_id r) w1 of
                                              Inl e3 \<Rightarrow> w1
                                            | Inr w' \<Rightarrow> w')
                                  in (respond 200 PasswordReset, w2))))))))"

text \<open>POST /api/auth/change-password, behind the \<open>auth\<close> middleware.\<close>

definition change_password ::
  "env \<Rightarrow> io \<Rightarrow> string option \<Rightarrow> jsval \<Rightarrow> jsval \<Rightarrow> world \<Rightarrow> response \<times> world" where
  "change_password env io authorization oldPassword newPassword w =
     (case auth env io authorization of
        Inl denied \<Rightarrow> (denied, w)
      | Inr req_user \<Rightarrow>
          (if \<not> truthy newPassword then (respond 400 MissingNewPassword, w)
           else
             (case users_select_eq_id (store_err io 0) w (uid req_user) of
                Inl e \<Rightarrow> server_error LogChangePassword w
              | Inr None \<Rightarrow> (respond 404 UserNotFound, w)
              | Inr (Some u) \<Rightarrow>
                  (case bcryptjs_compare env (js_or oldPassword (JStr [])) (pass_hash u) of
                     Inl ec \<Rightarrow> server_error LogChangePassword w
                   | Inr ok \<Rightarrow>
                       (if \<not> ok then (respond 400 WrongOldPassword, w)
                        else
                          (case bcryptjs_hash env io newPassword of
                             Inl eh \<Rightarrow> server_error LogChangePassword w
                           | Inr hash \<Rightarrow>
                               (case users_update_eq_id (store_err io 1)
                                       (\<lambda>u. u\<lparr>pass_hash := hash\<rparr>) (uid req_user) w of
                                  Inl e2 \<Rightarrow> server_error LogChangePassword w
                                | Inr w1 \<Rightarrow> (respond 200 PasswordChanged, w1))))))))"

subsection \<open>Constraints of the schema\<close>

text \<open>
  The tables as the README declares them: \<open>id\<close> is the primary key of both, \<open>email\<close> is
  unique in \<open>users\<close>. Every email the service writes is normalized.
\<close>

definition wf_world :: "world \<Rightarrow> bool" where
  "wf_world w =
     (distinct (map u_id (users w)) \<and> distinct (map u_email (users w))
      \<and> distinct (map r_id (resets w))
      \<and> (\<forall>u \<in> set (users w). normalize (u_email u) = u_email u))"

subsection \<open>An example deployment\<close>

text \<open>
  A configuration and a state on which the handlers can be run. The two bcrypt functions
  stand in for the library: the digest is the salt, a dollar sign and the password, and
  a password verifies against a digest when it is what follows the first dollar sign.
  The token of \<open>jwt_sign\<close> is the secret, a dot and the user id.
\<close>

definition demo_env :: env where
  "demo_env =
     \<lparr>JWT_SECRET = ''dev-secret'', ADMIN_EMAIL = ''admin@x.com'', ADMIN_CODE = ''letmein'',
      SMTP_HOST = ''smtp.x.com'', SMTP_PORT = ''587'', SMTP_USER = ''mailer'',
      SMTP_PASS = ''hunter2'',
      bcrypt_hash = (\<lambda>s pw. s @ ''$'' @ pw),
      bcrypt_compare = (\<lambda>pw d. dropWhile (\<lambda>c. c \<noteq> CHR ''$'') d = CHR ''$'' # pw),
      jwt_sign = (\<lambda>k c t. k @ ''.'' @ uid c),
      jwt_verify = (\<lambda>k tok t.
         if take (length k + 1) tok = k @ ''.''
         then Some \<lparr>uid = drop (length k + 1) tok, c_email = [], c_name = JNull\<rparr>
         else None)\<rparr>"

definition demo_io :: io where
  "demo_io =
     \<lparr>now = 1000, salt = ''s1'', rand_hex = ''c0ffee'', fresh_id = ''id9'',
      store_err = (\<lambda>k. False), mail_err = False\<rparr>"

definition empty_world :: world where
  "empty_world = \<lparr>users = [], resets = [], outbox = [], errlog = []\<rparr>"

definition demo_user :: user where
  "demo_user =
     \<lparr>u_id = ''id1'', u_name = JStr ''A'', u_email = ''a@x.com'', pass_hash = ''s0$p1'',
      approved = True\<rparr>"

definition demo_reset :: reset_row where
  "demo_reset = \<lparr>r_id = ''r1'', r_email = ''a@x.com'', r_token = ''tok'', expires_at = 1801000\<rparr>"

definition demo_world :: world where
  "demo_world = \<lparr>users = [demo_user], resets = [demo_reset], outbox = [], errlog = []\<rparr>"

section \<open>Properties\<close>

subsection \<open>Strings\<close>

lemma isWhiteSpace_toLowerChar: "isWhiteSpace (toLowerChar c) = isWhiteSpace c"
  by (auto simp: isWhiteSpace_def toLowerChar_def Let_def)

lemma toLowerChar_idem: "toLowerChar (toLowerChar c) = toLowerChar c"
  by (auto simp: toLowerChar_def Let_def)

lemma toLowerCase_idem: "toLowerCase (toLowerCase s) = toLowerCase s"
  by (simp add: toLowerCase_def toLowerChar_idem)

lemma dropWhile_rev_suffix:
  assumes "ys = dropWhile P (rev (dropWhile P xs))"
  shows "dropWhile P (rev ys) = rev ys"
proof (cases "ys = []")
  case True
  then show ?thesis by simp
next
  case False
  define a where "a = dropWhile P xs"
  have split: "rev a = takeWhile P (rev a) @ ys"
    using assms by (simp add: a_def)
  then have "a = rev ys @ rev (takeWhile P (rev a))"
    by (metis rev_append rev_rev_ident)
  with False have hd_eq: "hd (rev ys) = hd a" and "a \<noteq> []"
    by (metis hd_append2 rev_is_Nil_conv, metis Nil_is_append_conv rev_is_Nil_conv)
  then have "\<not> P (hd a)"
    unfolding a_def by (metis hd_dropWhile)
  with hd_eq False show ?thesis
    by (cases "rev ys") simp_all
qed

lemma trim_idem: "trim (trim s) = trim s"
proof -
  define b where "b = dropWhile isWhiteSpace (rev (dropWhile isWhiteSpace s))"
  have 1: "dropWhile isWhiteSpace (rev b) = rev b"
    using b_def by (rule dropWhile_rev_suffix)
  have 2: "dropWhile isWhiteSpace b = b"
    by (simp add: b_def)
  show ?thesis
    unfolding trim_def b_def [symmetric] by (simp add: 1 2)
qed

lemma trim_toLowerCase: "trim (toLowerCase s) = toLowerCase (trim s)"
  by (simp add: trim_def toLowerCase_def dropWhile_map rev_map comp_def
      isWhiteSpace_toLowerChar)

lemma normalize_idem: "normalize (normalize s) = normalize s"
  by (simp add: normalize_def trim_toLowerCase trim_idem toLowerCase_idem)

lemma normalize_Nil: "normalize [] = []"
  by (simp add: normalize_def trim_def toLowerCase_def)

lemma lower_of_JStr: "lower_of (JStr e) = Inr (normalize e)"
  by (cases "e = []") (simp_all add: lower_of_def js_or_def normalize_Nil)

lemma or_empty_falsy: "\<not> truthy v \<Longrightarrow> js_or v (JStr []) = JStr []"
  by (simp add: js_or_def)


subsection \<open>Store gateway\<close>

lemma filter_key_none:
  "\<forall>x \<in> set xs. k x \<noteq> e \<Longrightarrow> filter (\<lambda>x. k x = e) xs = []"
  by (induction xs) auto

lemma filter_key_unique:
  "distinct (map k xs) \<Longrightarrow> u \<in> set xs \<Longrightarrow> filter (\<lambda>x. k x = k u) xs = [u]"
proof (induction xs)
  case Nil
  then show ?case by simp
next
  case (Cons x xs)
  show ?case
  proof (cases "x = u")
    case True
    with Cons.prems have "k u \<notin> k ` set xs" by simp
    then have "\<forall>y \<in> set xs. k y \<noteq> k u" by (metis imageI)
    then have "filter (\<lambda>x. k x = k u) xs = []" by (rule filter_key_none)
    with True show ?thesis by simp
  next
    case False
    with Cons.prems have "u \<in> set xs" and "k x \<noteq> k u" by auto
    with Cons show ?thesis by simp
  qed
qed


lemma eq_char_of_iff: "c = char_of (n::nat) \<longleftrightarrow> of_char c = take_bit 8 n"
  using char_of_eq_iff [of n c] by auto

lemmas string_defs =
  normalize_def lower_of_def js_or_def trim_def toLowerCase_def toLowerChar_def
  isWhiteSpace_def isLineTerminator_def char_of_eq_iff eq_char_of_iff

lemmas store_defs =
  users_select_eq_email_def users_select_eq_id_def users_insert_def
  users_update_eq_email_def users_update_eq_id_def resets_insert_def
  resets_select_eq_email_token_def resets_delete_eq_id_def

lemmas demo_defs =
  demo_env_def demo_io_def empty_world_def demo_user_def demo_reset_def demo_world_def

lemmas handler_defs =
  respond_def server_error_def sendMail_def getTransporter_def signToken_def
  match_bearer_def auth_def

lemmas bcryptjs_defs = bcryptjs_hash_def bcryptjs_compare_def

subsection \<open>The handlers keep the constraints\<close>

lemma map_keys_update:
  "(\<And>x. k (f x) = k x) \<Longrightarrow> k \<circ> (\<lambda>x. if c x then f x else x) = k"
  by (auto simp: fun_eq_iff)

lemma wf_register: "wf_world w \<Longrightarrow> wf_world (snd (register env io name email password w))"
  by (auto simp: wf_world_def register_def Let_def store_defs handler_defs normalize_idem
      split: sum.splits option.splits if_splits)

lemma wf_approve: "wf_world w \<Longrightarrow> wf_world (snd (approve env io email code w))"
  by (auto simp: wf_world_def approve_def Let_def store_defs handler_defs map_keys_update
      split: sum.splits option.splits if_splits)

lemma wf_login: "wf_world w \<Longrightarrow> wf_world (snd (login env io email password w))"
  by (auto simp: wf_world_def login_def Let_def store_defs handler_defs
      split: sum.splits option.splits if_splits)

lemma wf_forgot: "wf_world w \<Longrightarrow> wf_world (snd (forgot env io email w))"
  by (auto simp: wf_world_def forgot_def Let_def store_defs handler_defs
      split: sum.splits option.splits if_splits)

lemma wf_reset: "wf_world w \<Longrightarrow> wf_world (snd (reset env io email token newPassword w))"
  by (auto simp: wf_world_def reset_def Let_def store_defs handler_defs map_keys_update
      distinct_map_filter split: sum.splits option.splits if_splits)

lemma wf_change_password:
  "wf_world w \<Longrightarrow>
   wf_world (snd (change_password env io authorization oldPassword newPassword w))"
  by (auto simp: wf_world_def change_password_def Let_def store_defs respond_def
      server_error_def map_keys_update split: sum.splits option.splits if_splits)

lemma wf_empty_world: "wf_world empty_world"
  by (simp add: wf_world_def empty_world_def)

lemma wf_demo_world: "wf_world demo_world"
  by (simp add: wf_world_def demo_defs string_defs)

subsection \<open>Reset\<close>

text \<open>
  What \<open>reset\<close> does once its lookup has found exactly one row: the expiry test, the
  hash of the new password, the update, and a delete whose outcome does not reach the
  response.
\<close>

lemma reset_found:
  assumes "lower_of email = Inr e" and "String_of token = Inr t"
    and "filter (\<lambda>x. r_email x = e \<and> r_token x = t) (resets w) = [r]"
    and "\<not> store_err io 0"
  shows "reset env io email token newPassword w =
     (if expires_at r < now io then (respond 400 ExpiredResetToken, w)
      else
        (case bcryptjs_hash env io (js_or newPassword (JStr [])) of
           Inl eh \<Rightarrow> server_error LogReset w
         | Inr hash \<Rightarrow>
             (if store_err io 1 then server_error LogReset w
              else (respond 200 PasswordReset,
                    w\<lparr>users :=
                         map (\<lambda>u. if u_email u = e then u\<lparr>pass_hash := hash\<rparr> else u)
                           (users w),
                       resets :=
                         (if store_err io 2 then resets w
                          else filter (\<lambda>x. r_id x \<noteq> r_id r) (resets w))\<rparr>))))"
  using assms
  by (simp add: reset_def resets_select_eq_email_token_def users_update_eq_email_def
      resets_delete_eq_id_def Let_def split: sum.splits)

lemma reset_found_string:
  assumes "lower_of email = Inr e" and "String_of token = Inr t"
    and "filter (\<lambda>x. r_email x = e \<and> r_token x = t) (resets w) = [r]"
    and "\<not> store_err io 0"
    and "js_or newPassword (JStr []) = JStr p"
  shows "reset env io email token newPassword w =
     (if expires_at r < now io then (respond 400 ExpiredResetToken, w)
      else if store_err io 1 then server_error LogReset w
      else (respond 200 PasswordReset,
            w\<lparr>users :=
                 map (\<lambda>u. if u_email u = e
                           then u\<lparr>pass_hash := bcrypt_hash env (salt io) p\<rparr> else u)
                   (users w),
               resets :=
                 (if store_err io 2 then resets w
                  else filter (\<lambda>x. r_id x \<noteq> r_id r) (resets w))\<rparr>))"
  by (simp add: reset_found [OF assms(1-4)] assms(5) bcryptjs_hash_def)

lemma reset_not_found:
  assumes "lower_of email = Inr e" and "String_of token = Inr t"
    and "filter (\<lambda>x. r_email x = e \<and> r_token x = t) (resets w) = []"
    and "\<not> store_err io 0"
  shows "reset env io email token newPassword w = (respond 400 InvalidResetToken, w)"
  using assms by (simp add: reset_def resets_select_eq_email_token_def)

lemma filter_after_delete:
  assumes "filter P xs = [r]"
  shows "filter P (filter (\<lambda>x. k x \<noteq> k r) xs) = []"
proof -
  have "filter P (filter (\<lambda>x. k x \<noteq> k r) xs) = filter (\<lambda>x. k x \<noteq> k r) (filter P xs)"
    by (simp add: conj_commute)
  with assms show ?thesis by simp
qed

text \<open>
  C1, as the code has it. When exactly one reset row matches the email and token, it has
  not expired, the new password of the first request is a string (or falsy, hashed as
  the empty string) and the store calls succeed, the delete of the row among them: the
  first reset answers 200 and the row is gone, and a second reset with the same email
  and token answers 400 "invalid token" and changes nothing.
\<close>

theorem reset_token_single_use:
  assumes "lower_of email = Inr e" and "String_of token = Inr t"
    and "filter (\<lambda>x. r_email x = e \<and> r_token x = t) (resets w) = [r]"
    and "\<not> expires_at r < now io1"
    and "js_or pw1 (JStr []) = JStr p1"
    and "\<not> store_err io1 0" and "\<not> store_err io1 1" and "\<not> store_err io1 2"
    and "\<not> store_err io2 0"
  shows "fst (reset env io1 email token pw1 w) = respond 200 PasswordReset
       \<and> r \<notin> set (resets (snd (reset env io1 email token pw1 w)))
       \<and> reset env io2 email token pw2 (snd (reset env io1 email token pw1 w))
           = (respond 400 InvalidResetToken, snd (reset env io1 email token pw1 w))"
proof -
  let ?w1 = "snd (reset env io1 email token pw1 w)"
  have first: "reset env io1 email token pw1 w =
      (respond 200 PasswordReset,
       w\<lparr>users :=
            map (\<lambda>u. if u_email u = e
                      then u\<lparr>pass_hash := bcrypt_hash env (salt io1) p1\<rparr> else u) (users w),
          resets := filter (\<lambda>x. r_id x \<noteq> r_id r) (resets w)\<rparr>)"
    using assms(4,7,8)
    by (simp add: reset_found_string [OF assms(1,2,3,6,5)])
  then have res: "resets ?w1 = filter (\<lambda>x. r_id x \<noteq> r_id r) (resets w)"
    by simp
  have gone: "r \<notin> set (resets ?w1)"
    by (simp add: res)
  have "filter (\<lambda>x. r_email x = e \<and> r_token x = t) (resets ?w1) = []"
    unfolding res using assms(3) by (rule filter_after_delete)
  with assms(1,2)
  have second: "reset env io2 email token pw2 ?w1 = (respond 400 InvalidResetToken, ?w1)"
    using assms(9) by (rule reset_not_found)
  from first gone second show ?thesis by simp
qed

theorem reset_token_single_use_witness:
  "lower_of (JStr ''A@x.com'') = Inr ''a@x.com'' \<and> String_of (JStr ''tok'') = Inr ''tok''
   \<and> filter (\<lambda>x. r_email x = ''a@x.com'' \<and> r_token x = ''tok'') (resets demo_world)
       = [demo_reset]
   \<and> \<not> expires_at demo_reset < now demo_io
   \<and> js_or (JStr ''p2'') (JStr []) = JStr ''p2''
   \<and> status (fst (reset demo_env demo_io (JStr ''A@x.com'') (JStr ''tok'') (JStr ''p2'') demo_world))
       = 200
   \<and> demo_reset \<notin> set (resets (snd (reset demo_env demo_io (JStr ''A@x.com'') (JStr ''tok'')
                                          (JStr ''p2'') demo_world)))
   \<and> fst (reset demo_env demo_io (JStr ''A@x.com'') (JStr ''tok'') (JStr ''p3'')
            (snd (reset demo_env demo_io (JStr ''A@x.com'') (JStr ''tok'') (JStr ''p2'')
                    demo_world)))
       = respond 400 InvalidResetToken"
proof -
  have l: "lower_of (JStr ''A@x.com'') = Inr ''a@x.com''"
    by (simp add: string_defs)
  have k: "String_of (JStr ''tok'') = Inr ''tok''" by simp
  have m: "filter (\<lambda>x. r_email x = ''a@x.com'' \<and> r_token x = ''tok'') (resets demo_world)
       = [demo_reset]"
    by (simp add: demo_defs)
  have e: "\<not> expires_at demo_reset < now demo_io"
    by (simp add: demo_defs)
  have p: "js_or (JStr ''p2'') (JStr []) = JStr ''p2''"
    by (simp add: js_or_def)
  have s: "\<not> store_err demo_io 0" "\<not> store_err demo_io 1" "\<not> store_err demo_io 2"
    by (simp_all add: demo_defs)
  from reset_token_single_use [OF l k m e p s s(1), of demo_env "JStr ''p3''"] l k m e p
  show ?thesis by (simp add: respond_def)
qed

text \<open>
  The claim C1 as written fails in two ways. The result of the delete is dropped: when
  the delete fails, the first reset still answers 200, the row stays and a second reset
  with the same token is accepted again. And a new password that is a number is refused
  by bcrypt, so the first reset answers 500.
\<close>

theorem reset_token_accepted_twice:
  "reset demo_env (demo_io\<lparr>store_err := (\<lambda>k. k = 2)\<rparr>) (JStr ''a@x.com'') (JStr ''tok'')
     (JStr ''p2'') demo_world
     = (respond 200 PasswordReset, demo_world\<lparr>users := [demo_user\<lparr>pass_hash := ''s1$p2''\<rparr>]\<rparr>)
   \<and> reset demo_env demo_io (JStr ''a@x.com'') (JStr ''tok'') (JStr ''p3'')
       (demo_world\<lparr>users := [demo_user\<lparr>pass_hash := ''s1$p2''\<rparr>]\<rparr>)
     = (respond 200 PasswordReset,
        demo_world\<lparr>users := [demo_user\<lparr>pass_hash := ''s1$p3''\<rparr>], resets := []\<rparr>)
   \<and> reset demo_env demo_io (JStr ''a@x.com'') (JStr ''tok'') (JNum True ''123'') demo_world
     = (respond 500 ServerError, demo_world\<lparr>errlog := [LogReset]\<rparr>)"
  by (simp add: reset_def Let_def demo_defs string_defs store_defs handler_defs bcryptjs_defs)

text \<open>
  C9. Reset does not ask for a new password: with \<open>newPassword\<close> absent, \<open>null\<close> or empty,
  a matching row that has not expired still gives 200, and every user with that email
  gets the hash of the empty string.
\<close>

theorem reset_without_new_password:
  assumes "\<not> truthy newPassword"
    and "lower_of email = Inr e" and "String_of token = Inr t"
    and "filter (\<lambda>x. r_email x = e \<and> r_token x = t) (resets w) = [r]"
    and "\<not> expires_at r < now io"
    and "\<not> store_err io 0" and "\<not> store_err io 1"
  shows "fst (reset env io email token newPassword w) = respond 200 PasswordReset
       \<and> users (snd (reset env io email token newPassword w))
           = map (\<lambda>u. if u_email u = e
                        then u\<lparr>pass_hash := bcrypt_hash env (salt io) []\<rparr> else u) (users w)
       \<and> (\<forall>u \<in> set (users (snd (reset env io email token newPassword w))).
             u_email u = e \<longrightarrow> pass_hash u = bcrypt_hash env (salt io) [])"
proof -
  have empty: "js_or newPassword (JStr []) = JStr []"
    using assms(1) by (rule or_empty_falsy)
  have res: "reset env io email token newPassword w =
      (respond 200 PasswordReset,
       w\<lparr>users :=
            map (\<lambda>u. if u_email u = e
                      then u\<lparr>pass_hash := bcrypt_hash env (salt io) []\<rparr> else u) (users w),
          resets :=
            (if store_err io 2 then resets w
             else filter (\<lambda>x. r_id x \<noteq> r_id r) (resets w))\<rparr>)"
    using assms(5,7) by (simp add: reset_found_string [OF assms(2,3,4,6) empty])
  have "pass_hash u = bcrypt_hash env (salt io) []"
    if "u \<in> set (map (\<lambda>u. if u_email u = e
                               then u\<lparr>pass_hash := bcrypt_hash env (salt io) []\<rparr> else u)
                       (users w))"
      and "u_email u = e" for u
  proof -
    from that(1) obtain v where "v \<in> set (users w)"
      and u: "u = (if u_email v = e then v\<lparr>pass_hash := bcrypt_hash env (salt io) []\<rparr> else v)"
      by (auto simp: image_iff)
    show ?thesis
    proof (cases "u_email v = e")
      case True
      with u show ?thesis by simp
    next
      case False
      with u that(2) show ?thesis by simp
    qed
  qed
  then have third: "\<forall>u \<in> set (map (\<lambda>u. if u_email u = e
                               then u\<lparr>pass_hash := bcrypt_hash env (salt io) []\<rparr> else u)
                       (users w)).
        u_email u = e \<longrightarrow> pass_hash u = bcrypt_hash env (salt io) []"
    by blast
  have us: "users (snd (reset env io email token newPassword w))
      = map (\<lambda>u. if u_email u = e
                   then u\<lparr>pass_hash := bcrypt_hash env (salt io) []\<rparr> else u) (users w)"
    by (simp add: res)
  show ?thesis
  proof (intro conjI)
    show "fst (reset env io email token newPassword w) = respond 200 PasswordReset"
      by (simp add: res)
    show "users (snd (reset env io email token newPassword w))
      = map (\<lambda>u. if u_email u = e
                   then u\<lparr>pass_hash := bcrypt_hash env (salt io) []\<rparr> else u) (users w)"
      by (rule us)
    show "\<forall>u \<in> set (users (snd (reset env io email token newPassword w))).
        u_email u = e \<longrightarrow> pass_hash u = bcrypt_hash env (salt io) []"
      unfolding us by (rule third)
  qed
qed

theorem reset_without_new_password_witness:
  "\<not> truthy JUndefined
   \<and> lower_of (JStr ''a@x.com'') = Inr ''a@x.com'' \<and> String_of (JStr ''tok'') = Inr ''tok''
   \<and> filter (\<lambda>x. r_email x = ''a@x.com'' \<and> r_token x = ''tok'') (resets demo_world)
       = [demo_reset]
   \<and> \<not> expires_at demo_reset < now demo_io
   \<and> demo_user \<in> set (users demo_world) \<and> u_email demo_user = ''a@x.com''
   \<and> status (fst (reset demo_env demo_io (JStr ''a@x.com'') (JStr ''tok'') JUndefined demo_world))
       = 200
   \<and> users (snd (reset demo_env demo_io (JStr ''a@x.com'') (JStr ''tok'') JUndefined demo_world))
       = [demo_user\<lparr>pass_hash := bcrypt_hash demo_env ''s1'' []\<rparr>]"
proof -
  have t: "\<not> truthy JUndefined" by simp
  have l: "lower_of (JStr ''a@x.com'') = Inr ''a@x.com''"
    by (simp add: string_defs)
  have k: "String_of (JStr ''tok'') = Inr ''tok''" by simp
  have m: "filter (\<lambda>x. r_email x = ''a@x.com'' \<and> r_token x = ''tok'') (resets demo_world)
       = [demo_reset]"
    by (simp add: demo_defs)
  have e: "\<not> expires_at demo_reset < now demo_io"
    by (simp add: demo_defs)
  have s: "\<not> store_err demo_io 0" "\<not> store_err demo_io 1"
    by (simp_all add: demo_defs)
  have u: "demo_user \<in> set (users demo_world)" "u_email demo_user = ''a@x.com''"
    by (simp_all add: demo_defs)
  have sl: "salt demo_io = ''s1''" "users demo_world = [demo_user]"
    by (simp_all add: demo_defs)
  from reset_without_new_password [OF t l k m e s, of demo_env] t l k m e u
  show ?thesis by (simp add: respond_def sl)
qed

text \<open>
  C10. Once the password update has succeeded, reset answers 200 whatever the delete of
  the reset row returns: when that delete fails, the answer is still 200 and the row is
  still in the store.
\<close>

theorem reset_ignores_delete_result:
  assumes "lower_of email = Inr e" and "String_of token = Inr t"
    and "filter (\<lambda>x. r_email x = e \<and> r_token x = t) (resets w) = [r]"
    and "\<not> expires_at r < now io"
    and "js_or newPassword (JStr []) = JStr p"
    and "\<not> store_err io 0" and "\<not> store_err io 1"
  shows "fst (reset env io email token newPassword w) = respond 200 PasswordReset
       \<and> (store_err io 2 \<longrightarrow>
            resets (snd (reset env io email token newPassword w)) = resets w
            \<and> r \<in> set (resets (snd (reset env io email token newPassword w))))"
proof -
  have "r \<in> set (filter (\<lambda>x. r_email x = e \<and> r_token x = t) (resets w))"
    by (simp add: assms(3))
  then have "r \<in> set (resets w)" by simp
  with assms(4,7) show ?thesis
    by (simp add: reset_found_string [OF assms(1,2,3,6,5)])
qed

theorem reset_ignores_delete_result_witness:
  "lower_of (JStr ''a@x.com'') = Inr ''a@x.com'' \<and> String_of (JStr ''tok'') = Inr ''tok''
   \<and> filter (\<lambda>x. r_email x = ''a@x.com'' \<and> r_token x = ''tok'') (resets demo_world)
       = [demo_reset]
   \<and> \<not> expires_at demo_reset < now (demo_io\<lparr>store_err := (\<lambda>k. k = 2)\<rparr>)
   \<and> js_or (JStr ''p2'') (JStr []) = JStr ''p2''
   \<and> store_err (demo_io\<lparr>store_err := (\<lambda>k. k = 2)\<rparr>) 2
   \<and> status (fst (reset demo_env (demo_io\<lparr>store_err := (\<lambda>k. k = 2)\<rparr>)
                    (JStr ''a@x.com'') (JStr ''tok'') (JStr ''p2'') demo_world)) = 200
   \<and> demo_reset \<in> set (resets (snd (reset demo_env (demo_io\<lparr>store_err := (\<lambda>k. k = 2)\<rparr>)
                                        (JStr ''a@x.com'') (JStr ''tok'') (JStr ''p2'') demo_world)))"
proof -
  let ?io = "demo_io\<lparr>store_err := (\<lambda>k. k = 2)\<rparr>"
  have l: "lower_of (JStr ''a@x.com'') = Inr ''a@x.com''"
    by (simp add: string_defs)
  have k: "String_of (JStr ''tok'') = Inr ''tok''" by simp
  have m: "filter (\<lambda>x. r_email x = ''a@x.com'' \<and> r_token x = ''tok'') (resets demo_world)
       = [demo_reset]"
    by (simp add: demo_defs)
  have e: "\<not> expires_at demo_reset < now ?io"
    by (simp add: demo_defs)
  have p: "js_or (JStr ''p2'') (JStr []) = JStr ''p2''"
    by (simp add: js_or_def)
  have s: "\<not> store_err ?io 0" "\<not> store_err ?io 1"
    by simp_all
  have f: "store_err ?io 2" by simp
  have r: "demo_reset \<in> set (resets demo_world)"
    by (simp add: demo_defs)
  from reset_ignores_delete_result [OF l k m e p s, of demo_env] l k m e p f r
  show ?thesis by (simp add: respond_def)
qed

lemma forgot_resets:
  "resets (snd (forgot env io email w)) = resets w
   \<or> (\<exists>e. resets (snd (forgot env io email w))
            = resets w @ [\<lparr>r_id = fresh_id io, r_email = e, r_token = rand_hex io,
                            expires_at = now io + 1800000\<rparr>])"
  by (auto simp: forgot_def Let_def store_defs handler_defs
      split: sum.splits option.splits list.splits if_splits)

text \<open>
  C3, as the code has it. The expiry test is \<^verbatim>\<open>expires_at < now\<close>: a reset strictly after
  \<open>expires_at\<close> answers 400 "expired" and changes nothing, although the row is still
  there; a reset at \<open>expires_at\<close> or before it succeeds when the password update does
  (the new password is hashed and the store accepts the update). Every row that forgot
  adds expires 30 minutes after the request.
\<close>

theorem reset_expiry:
  assumes "lower_of email = Inr e" and "String_of token = Inr t"
    and "filter (\<lambda>x. r_email x = e \<and> r_token x = t) (resets w) = [r]"
    and "\<not> store_err io 0"
  shows "(expires_at r < now io \<longrightarrow>
            reset env io email token newPassword w = (respond 400 ExpiredResetToken, w))
       \<and> (now io \<le> expires_at r \<and> js_or newPassword (JStr []) = JStr p
          \<and> \<not> store_err io 1 \<longrightarrow>
            fst (reset env io email token newPassword w) = respond 200 PasswordReset)
       \<and> (\<forall>x \<in> set (resets (snd (forgot env io' email' w))).
            x \<notin> set (resets w) \<longrightarrow> expires_at x = now io' + 1000 * 60 * 30)"
proof -
  have added: "\<forall>x \<in> set (resets (snd (forgot env io' email' w))).
          x \<notin> set (resets w) \<longrightarrow> expires_at x = now io' + 1000 * 60 * 30"
    using forgot_resets [of env io' email' w] by auto
  have late: "reset env io email token newPassword w = (respond 400 ExpiredResetToken, w)"
    if "expires_at r < now io"
    using that by (simp add: reset_found [OF assms])
  have early: "fst (reset env io email token newPassword w) = respond 200 PasswordReset"
    if "now io \<le> expires_at r" and "js_or newPassword (JStr []) = JStr p"
      and "\<not> store_err io 1"
    using that(1,3) by (simp add: reset_found_string [OF assms that(2)])
  from added late early show ?thesis by blast
qed

theorem reset_expiry_witness:
  "lower_of (JStr ''a@x.com'') = Inr ''a@x.com'' \<and> String_of (JStr ''tok'') = Inr ''tok''
   \<and> filter (\<lambda>x. r_email x = ''a@x.com'' \<and> r_token x = ''tok'') (resets demo_world)
       = [demo_reset]
   \<and> expires_at demo_reset < now (demo_io\<lparr>now := 1801001\<rparr>)
   \<and> reset demo_env (demo_io\<lparr>now := 1801001\<rparr>) (JStr ''a@x.com'') (JStr ''tok'') (JStr ''p2'')
        demo_world = (respond 400 ExpiredResetToken, demo_world)
   \<and> now demo_io \<le> expires_at demo_reset
   \<and> js_or (JStr ''p2'') (JStr []) = JStr ''p2''
   \<and> status (fst (reset demo_env demo_io (JStr ''a@x.com'') (JStr ''tok'') (JStr ''p2'')
                    demo_world)) = 200
   \<and> \<lparr>r_id = ''id9'', r_email = ''a@x.com'', r_token = ''c0ffee'', expires_at = 1801000\<rparr>
       \<in> set (resets (snd (forgot demo_env demo_io (JStr ''a@x.com'') demo_world)))"
proof -
  let ?late = "demo_io\<lparr>now := 1801001\<rparr>"
  have l: "lower_of (JStr ''a@x.com'') = Inr ''a@x.com''"
    by (simp add: string_defs)
  have k: "String_of (JStr ''tok'') = Inr ''tok''" by simp
  have m: "filter (\<lambda>x. r_email x = ''a@x.com'' \<and> r_token x = ''tok'') (resets demo_world)
       = [demo_reset]"
    by (simp add: demo_defs)
  have s: "\<not> store_err ?late 0" "\<not> store_err demo_io 0" "\<not> store_err demo_io 1"
    by (simp_all add: demo_defs)
  have late: "expires_at demo_reset < now ?late"
    by (simp add: demo_defs)
  have early: "now demo_io \<le> expires_at demo_reset"
    by (simp add: demo_defs)
  have p: "js_or (JStr ''p2'') (JStr []) = JStr ''p2''"
    by (simp add: js_or_def)
  have row: "\<lparr>r_id = ''id9'', r_email = ''a@x.com'', r_token = ''c0ffee'', expires_at = 1801000\<rparr>
       \<in> set (resets (snd (forgot demo_env demo_io (JStr ''a@x.com'') demo_world)))"
    by (simp add: forgot_def Let_def demo_defs string_defs store_defs handler_defs)
  from reset_expiry [OF l k m s(1), of demo_env "JStr ''p2''" "''p2''" demo_io "JStr ''a@x.com''"]
       reset_expiry [OF l k m s(2), of demo_env "JStr ''p2''" "''p2''" demo_io "JStr ''a@x.com''"]
       l k m s late early p row
  show ?thesis by (simp add: respond_def)
qed

text \<open>
  The claim C3 as written fails at the instant \<open>now = expires_at\<close>: the reset is accepted
  and the stored hash changes.
\<close>

theorem reset_at_expiry_instant:
  "\<not> now (demo_io\<lparr>now := 1801000\<rparr>) < expires_at demo_reset
   \<and> reset demo_env (demo_io\<lparr>now := 1801000\<rparr>) (JStr ''a@x.com'') (JStr ''tok'') (JStr ''p2'')
        demo_world
       = (respond 200 PasswordReset,
          demo_world\<lparr>users := [demo_user\<lparr>pass_hash := ''s1$p2''\<rparr>], resets := []\<rparr>)
   \<and> pass_hash demo_user \<noteq> ''s1$p2''"
  by (simp add: reset_def Let_def demo_defs string_defs store_defs handler_defs bcryptjs_defs)

subsection \<open>Approve\<close>



subsection \<open>Register\<close>

lemma users_select_eq_email_unique:
  assumes "u \<in> set (users w)" and "u_email u = e" and "distinct (map u_email (users w))"
    and "\<not> err"
  shows "users_select_eq_email err w e = Inr (Some u)"
proof -
  have "filter (\<lambda>x. u_email x = u_email u) (users w) = [u]"
    using assms(3,1) by (rule filter_key_unique)
  with assms(2,4) show ?thesis by (simp add: users_select_eq_email_def)
qed

lemma users_select_eq_email_none:
  assumes "\<forall>x \<in> set (users w). u_email x \<noteq> e" and "\<not> err"
  shows "users_select_eq_email err w e = Inr None"
  using assms by (simp add: users_select_eq_email_def filter_key_none)

text \<open>
  C4. When a user already holds the trimmed, lowercased form of the submitted email,
  register answers 400 and leaves the store as it is: no row is added and none is
  changed. For a request with name, email and password present the message is "email
  already exists".
\<close>

theorem register_duplicate_email:
  assumes "u \<in> set (users w)" and "String_of email = Inr s" and "u_email u = normalize s"
    and "distinct (map u_email (users w))"
    and "\<not> store_err io 0"
  shows "status (fst (register env io name email password w)) = 400
       \<and> snd (register env io name email password w) = w
       \<and> (truthy name \<and> truthy email \<and> truthy password \<longrightarrow>
            fst (register env io name email password w) = respond 400 EmailExists)"
proof -
  have "users_select_eq_email (store_err io 0) w (normalize s) = Inr (Some u)"
    using assms(1,3,4,5) by (rule users_select_eq_email_unique)
  with assms(2) show ?thesis
    by (simp add: register_def respond_def)
qed

theorem register_duplicate_email_witness:
  "demo_user \<in> set (users demo_world)
   \<and> String_of (JStr '' A@X.com'') = Inr '' A@X.com''
   \<and> u_email demo_user = normalize '' A@X.com''
   \<and> distinct (map u_email (users demo_world))
   \<and> truthy (JStr ''B'') \<and> truthy (JStr '' A@X.com'') \<and> truthy (JStr ''p2'')
   \<and> register demo_env demo_io (JStr ''B'') (JStr '' A@X.com'') (JStr ''p2'') demo_world
       = (respond 400 EmailExists, demo_world)"
proof -
  have u: "demo_user \<in> set (users demo_world)"
    by (simp add: demo_defs)
  have c: "String_of (JStr '' A@X.com'') = Inr '' A@X.com''" by simp
  have e: "u_email demo_user = normalize '' A@X.com''"
    by (simp add: demo_defs string_defs)
  have d: "distinct (map u_email (users demo_world))"
    by (simp add: demo_defs)
  have s: "\<not> store_err demo_io 0"
    by (simp add: demo_defs)
  have t: "truthy (JStr ''B'')" "truthy (JStr '' A@X.com'')" "truthy (JStr ''p2'')"
    by simp_all
  from register_duplicate_email [OF u c e d s, of demo_env "JStr ''B''" "JStr ''p2''"] u c e d t
  show ?thesis by (simp add: prod_eq_iff)
qed

subsection \<open>Login\<close>

text \<open>A login against a store where exactly one user holds the email.\<close>

lemma login_found:
  assumes "lower_of email = Inr e" and "u \<in> set (users w)" and "u_email u = e"
    and "distinct (map u_email (users w))"
    and "\<not> store_err io 0"
  shows "login env io email password w =
     (if \<not> approved u then (respond 403 NotApproved, w)
      else
        (case bcryptjs_compare env (js_or password (JStr [])) (pass_hash u) of
           Inl ec \<Rightarrow> server_error LogLogin w
         | Inr ok \<Rightarrow>
             (if \<not> ok then (respond 400 BadCredentials, w)
              else (\<lparr>status = 200,
                     payload = Session (signToken env io \<lparr>uid = u_id u, c_email = u_email u,
                                                          c_name = u_name u\<rparr>)
                                 (u_id u) (u_email u) (u_name u)\<rparr>, w))))"
proof -
  have "users_select_eq_email (store_err io 0) w e = Inr (Some u)"
    using assms(2-5) by (rule users_select_eq_email_unique)
  with assms(1) show ?thesis
    by (simp add: login_def Let_def split: sum.splits)
qed

text \<open>A password that is truthy and no string never reaches a verdict of bcrypt.\<close>

lemma login_refused_password:
  assumes "lower_of email = Inr e" and "u \<in> set (users w)" and "u_email u = e"
    and "distinct (map u_email (users w))"
    and "\<not> store_err io 0"
    and "approved u"
    and "truthy password" and "\<forall>s. password \<noteq> JStr s"
  shows "login env io email password w = server_error LogLogin w"
  using assms(6,7,8)
  by (cases password)
     (simp_all add: login_found [OF assms(1-5)] bcryptjs_compare_def js_or_def)




subsection \<open>Change password\<close>







subsection \<open>Mail failures\<close>

text \<open>
  C6 says that a failing send is logged and swallowed and never changes the response.
  This \<open>sendMail\<close> does not catch: with the mailer configured and the transport rejecting
  the message, \<open>sendMail\<close> rejects too, and the catch block of the handler answers 500,
  register after it has inserted the user, forgot after it has inserted the reset row.
\<close>

theorem mail_failure_surfaces:
  assumes "getTransporter env \<noteq> None" and "mail_err io"
    and "\<not> store_err io 0" and "\<not> store_err io 1"
  shows "(truthy name \<and> truthy email \<and> String_of email = Inr s
          \<and> password = JStr p \<and> p \<noteq> [] \<and> ADMIN_EMAIL env \<noteq> []
          \<and> normalize s \<notin> set (map u_email (users w))
          \<and> fresh_id io \<notin> set (map u_id (users w)) \<longrightarrow>
            register env io name email password w
              = (respond 500 ServerError,
                 w\<lparr>users := users w @
                      [\<lparr>u_id = fresh_id io, u_name = name, u_email = normalize s,
                        pass_hash = bcrypt_hash env (salt io) p, approved = False\<rparr>],
                    errlog := errlog w @ [LogRegister]\<rparr>))
       \<and> (u \<in> set (users w) \<and> lower_of email' = Inr (u_email u)
          \<and> distinct (map u_email (users w))
          \<and> fresh_id io \<notin> set (map r_id (resets w)) \<longrightarrow>
            forgot env io email' w
              = (respond 500 ServerError,
                 w\<lparr>resets := resets w @
                      [\<lparr>r_id = fresh_id io, r_email = u_email u, r_token = rand_hex io,
                        expires_at = now io + 1000 * 60 * 30\<rparr>],
                    errlog := errlog w @ [LogForgot]\<rparr>))"
proof -
  have reg: "register env io name email password w
      = (respond 500 ServerError,
         w\<lparr>users := users w @
              [\<lparr>u_id = fresh_id io, u_name = name, u_email = normalize s,
                pass_hash = bcrypt_hash env (salt io) p, approved = False\<rparr>],
            errlog := errlog w @ [LogRegister]\<rparr>)"
    if "truthy name" "truthy email" "String_of email = Inr s"
      and "password = JStr p" "p \<noteq> []" "ADMIN_EMAIL env \<noteq> []"
      and free: "normalize s \<notin> set (map u_email (users w))"
      and fresh: "fresh_id io \<notin> set (map u_id (users w))"
  proof -
    from free have "\<forall>x \<in> set (users w). u_email x \<noteq> normalize s"
      by (metis image_eqI list.set_map)
    then have "users_select_eq_email (store_err io 0) w (normalize s) = Inr None"
      using assms(3) by (rule users_select_eq_email_none)
    with that assms show ?thesis
      by (auto simp: register_def Let_def users_insert_def sendMail_def server_error_def
          bcryptjs_hash_def split: sum.splits)
  qed
  have forg: "forgot env io email' w
      = (respond 500 ServerError,
         w\<lparr>resets := resets w @
              [\<lparr>r_id = fresh_id io, r_email = u_email u, r_token = rand_hex io,
                expires_at = now io + 1000 * 60 * 30\<rparr>],
            errlog := errlog w @ [LogForgot]\<rparr>)"
    if "u \<in> set (users w)" "lower_of email' = Inr (u_email u)"
      "distinct (map u_email (users w))"
      and fresh: "fresh_id io \<notin> set (map r_id (resets w))"
  proof -
    have "users_select_eq_email (store_err io 0) w (u_email u) = Inr (Some u)"
      using that(1) refl that(3) assms(3) by (rule users_select_eq_email_unique)
    with fresh that(2) assms show ?thesis
      by (auto simp: forgot_def Let_def resets_insert_def sendMail_def server_error_def)
  qed
  from reg forg show ?thesis by blast
qed

theorem mail_failure_surfaces_witness:
  "getTransporter demo_env \<noteq> None \<and> mail_err (demo_io\<lparr>mail_err := True\<rparr>)
   \<and> ADMIN_EMAIL demo_env \<noteq> []
   \<and> register demo_env (demo_io\<lparr>mail_err := True\<rparr>) (JStr ''B'') (JStr ''b@x.com'') (JStr ''p2'')
       demo_world
     = (respond 500 ServerError,
        demo_world\<lparr>users := [demo_user,
                              \<lparr>u_id = ''id9'', u_name = JStr ''B'', u_email = ''b@x.com'',
                               pass_hash = ''s1$p2'', approved = False\<rparr>],
                    errlog := [LogRegister]\<rparr>)
   \<and> forgot demo_env (demo_io\<lparr>mail_err := True\<rparr>) (JStr ''a@x.com'') demo_world
     = (respond 500 ServerError,
        demo_world\<lparr>resets := [demo_reset,
                               \<lparr>r_id = ''id9'', r_email = ''a@x.com'', r_token = ''c0ffee'',
                                expires_at = 1801000\<rparr>],
                    errlog := [LogForgot]\<rparr>)"
proof -
  let ?io = "demo_io\<lparr>mail_err := True\<rparr>"
  have t: "getTransporter demo_env \<noteq> None" "mail_err ?io"
    "\<not> store_err ?io 0" "\<not> store_err ?io 1"
    by (simp_all add: demo_defs getTransporter_def)
  have r: "truthy (JStr ''B'') \<and> truthy (JStr ''b@x.com'')
      \<and> String_of (JStr ''b@x.com'') = Inr ''b@x.com''
      \<and> JStr ''p2'' = JStr ''p2'' \<and> ''p2'' \<noteq> []
      \<and> ADMIN_EMAIL demo_env \<noteq> []
      \<and> normalize ''b@x.com'' \<notin> set (map u_email (users demo_world))
      \<and> fresh_id ?io \<notin> set (map u_id (users demo_world))"
    by (simp add: demo_defs string_defs)
  have f: "demo_user \<in> set (users demo_world)
      \<and> lower_of (JStr ''a@x.com'') = Inr (u_email demo_user)
      \<and> distinct (map u_email (users demo_world))
      \<and> fresh_id ?io \<notin> set (map r_id (resets demo_world))"
    by (simp add: demo_defs string_defs)
  note inst = mail_failure_surfaces [OF t, of "JStr ''B''" "JStr ''b@x.com''" "''b@x.com''"
      "JStr ''p2''" "''p2''" demo_world demo_user "JStr ''a@x.com''"]
  have reg: "register demo_env ?io (JStr ''B'') (JStr ''b@x.com'') (JStr ''p2'') demo_world
      = (respond 500 ServerError,
         demo_world\<lparr>users := users demo_world @
              [\<lparr>u_id = fresh_id ?io, u_name = JStr ''B'', u_email = normalize ''b@x.com'',
                pass_hash = bcrypt_hash demo_env (salt ?io) ''p2'', approved = False\<rparr>],
            errlog := errlog demo_world @ [LogRegister]\<rparr>)"
    using inst r by blast
  have forg: "forgot demo_env ?io (JStr ''a@x.com'') demo_world
      = (respond 500 ServerError,
         demo_world\<lparr>resets := resets demo_world @
              [\<lparr>r_id = fresh_id ?io, r_email = u_email demo_user,
                r_token = rand_hex ?io, expires_at = now ?io + 1000 * 60 * 30\<rparr>],
            errlog := errlog demo_world @ [LogForgot]\<rparr>)"
    using inst f by blast
  have vals: "users demo_world = [demo_user]" "resets demo_world = [demo_reset]"
    "errlog demo_world = []" "fresh_id ?io = ''id9''" "salt ?io = ''s1''"
    "rand_hex ?io = ''c0ffee''" "now ?io = 1000"
    "normalize ''b@x.com'' = ''b@x.com''" "u_email demo_user = ''a@x.com''"
    "bcrypt_hash demo_env ''s1'' ''p2'' = ''s1$p2''"
    by (simp_all add: demo_defs string_defs)
  have adm: "ADMIN_EMAIL demo_env \<noteq> []"
    by (simp add: demo_defs)
  from t(1,2) adm reg forg show ?thesis
    by (simp add: vals)
qed

subsection \<open>Normalized emails\<close>

lemma normalize_nonempty: "normalize e \<noteq> [] \<Longrightarrow> e \<noteq> []"
  using normalize_Nil by auto

lemma register_users:
  "users (snd (register env io name email password w)) = users w
   \<or> (\<exists>s h. String_of email = Inr s
          \<and> users (snd (register env io name email password w))
              = users w @ [\<lparr>u_id = fresh_id io, u_name = name, u_email = normalize s,
                             pass_hash = h, approved = False\<rparr>])"
  by (auto simp: register_def Let_def store_defs handler_defs
      split: sum.splits option.splits list.splits if_splits)

text \<open>
  C7, as the code has it. Login looks the email up by its normalized form, so it
  behaves the same on \<open>e\<close> and on the trimmed, lowercased \<open>e\<close>, for every string \<open>e\<close>
  (trimming and lowercasing commute). Approve and register test the presence of the raw
  field before they normalize it, so they behave the same on \<open>e\<close> and on its normalized
  form when that form is not empty. A row that register adds carries the normalized
  email.
\<close>

theorem email_lookup_normalized:
  "login env io (JStr e) password w = login env io (JStr (normalize e)) password w
   \<and> normalize e = trim (toLowerCase e)
   \<and> (normalize e \<noteq> [] \<longrightarrow>
        approve env io (JStr e) code w = approve env io (JStr (normalize e)) code w
        \<and> register env io name (JStr e) password w
           = register env io name (JStr (normalize e)) password w)
   \<and> (\<forall>u \<in> set (users (snd (register env io name (JStr e) password w))).
        u \<notin> set (users w) \<longrightarrow> u_email u = normalize e)"
proof -
  have "lower_of (JStr (normalize e)) = lower_of (JStr e)"
    by (simp add: lower_of_JStr normalize_idem)
  then have login: "login env io (JStr e) password w = login env io (JStr (normalize e)) password w"
    by (simp add: login_def)
  have order: "normalize e = trim (toLowerCase e)"
    by (simp add: normalize_def trim_toLowerCase)
  have both: "approve env io (JStr e) code w = approve env io (JStr (normalize e)) code w
      \<and> register env io name (JStr e) password w
         = register env io name (JStr (normalize e)) password w"
    if "normalize e \<noteq> []"
  proof -
    from that have "e \<noteq> []" by (rule normalize_nonempty)
    with that show ?thesis
      by (simp add: approve_def register_def normalize_idem)
  qed
  have stored: "\<forall>u \<in> set (users (snd (register env io name (JStr e) password w))).
        u \<notin> set (users w) \<longrightarrow> u_email u = normalize e"
    using register_users [of env io name "JStr e" password w] by auto
  from login order both stored show ?thesis by blast
qed

theorem email_lookup_normalized_witness:
  "normalize ''A@X.com'' = ''a@x.com'' \<and> normalize ''A@X.com'' \<noteq> []
   \<and> login demo_env demo_io (JStr ''A@X.com'') (JStr ''p1'') demo_world
       = login demo_env demo_io (JStr ''a@x.com'') (JStr ''p1'') demo_world
   \<and> approve demo_env demo_io (JStr ''A@X.com'') (JStr ''letmein'') demo_world
       = approve demo_env demo_io (JStr ''a@x.com'') (JStr ''letmein'') demo_world
   \<and> register demo_env demo_io (JStr ''A'') (JStr ''A@X.com'') (JStr ''p1'') empty_world
       = register demo_env demo_io (JStr ''A'') (JStr ''a@x.com'') (JStr ''p1'') empty_world
   \<and> users (snd (register demo_env demo_io (JStr ''A'') (JStr ''A@X.com'') (JStr ''p1'')
                    empty_world))
       = [\<lparr>u_id = ''id9'', u_name = JStr ''A'', u_email = ''a@x.com'', pass_hash = ''s1$p1'',
           approved = False\<rparr>]
   \<and> fst (register demo_env demo_io (JStr ''A'') (JStr ''a@x.com'') (JStr ''p1'')
            (snd (register demo_env demo_io (JStr ''A'') (JStr ''A@X.com'') (JStr ''p1'')
                    empty_world)))
       = respond 400 EmailExists"
proof -
  have n: "normalize ''A@X.com'' = ''a@x.com''"
    by (simp add: string_defs)
  have stored: "users (snd (register demo_env demo_io (JStr ''A'') (JStr ''A@X.com'') (JStr ''p1'')
                    empty_world))
       = [\<lparr>u_id = ''id9'', u_name = JStr ''A'', u_email = ''a@x.com'', pass_hash = ''s1$p1'',
           approved = False\<rparr>]"
    by (simp add: register_def Let_def demo_defs string_defs store_defs handler_defs
        bcryptjs_defs)
  have again: "fst (register demo_env demo_io (JStr ''A'') (JStr ''a@x.com'') (JStr ''p1'')
            (snd (register demo_env demo_io (JStr ''A'') (JStr ''A@X.com'') (JStr ''p1'')
                    empty_world)))
       = respond 400 EmailExists"
    by (simp add: register_def Let_def demo_defs string_defs store_defs handler_defs
        bcryptjs_defs)
  have ne: "normalize ''A@X.com'' \<noteq> []"
    by (simp add: n)
  note on_demo = email_lookup_normalized [of demo_env demo_io "''A@X.com''" "JStr ''p1''"
      demo_world "JStr ''letmein''" "JStr ''A''"]
  note on_empty = email_lookup_normalized [of demo_env demo_io "''A@X.com''" "JStr ''p1''"
      empty_world "JStr ''letmein''" "JStr ''A''"]
  have l: "login demo_env demo_io (JStr ''A@X.com'') (JStr ''p1'') demo_world
       = login demo_env demo_io (JStr (normalize ''A@X.com'')) (JStr ''p1'') demo_world"
    using on_demo by (rule conjunct1)
  have a: "approve demo_env demo_io (JStr ''A@X.com'') (JStr ''letmein'') demo_world
       = approve demo_env demo_io (JStr (normalize ''A@X.com'')) (JStr ''letmein'') demo_world"
    using on_demo ne by blast
  have r: "register demo_env demo_io (JStr ''A'') (JStr ''A@X.com'') (JStr ''p1'') empty_world
       = register demo_env demo_io (JStr ''A'') (JStr (normalize ''A@X.com'')) (JStr ''p1'')
           empty_world"
    using on_empty ne by blast
  from l a r ne stored again show ?thesis
    unfolding n by simp
qed

text \<open>
  The claim C7 as written fails for an email of white space only: the raw field is
  present, its normalized form is the empty string, which the presence check refuses.
\<close>

theorem whitespace_email_differs:
  "trim (toLowerCase '' '') = []
   \<and> approve demo_env demo_io (JStr '' '') (JStr ''letmein'') demo_world
       = (respond 200 Approved, demo_world)
   \<and> approve demo_env demo_io (JStr (trim (toLowerCase '' ''))) (JStr ''letmein'') demo_world
       = (respond 400 MissingEmailCode, demo_world)
   \<and> fst (register demo_env demo_io (JStr ''B'') (JStr '' '') (JStr ''p2'') demo_world)
       = respond 200 Registered
   \<and> fst (register demo_env demo_io (JStr ''B'') (JStr (trim (toLowerCase '' ''))) (JStr ''p2'')
            demo_world)
       = respond 400 MissingFields"
  by (simp add: approve_def register_def Let_def demo_defs string_defs store_defs handler_defs
      bcryptjs_defs)

end
